theory Spec2Isabelle
  imports Main
begin

section \<open>The script examples/create-anytrust-custom-fee-token/index.ts\<close>

text \<open>
  The script deploys an AnyTrust rollup with a custom fee token and then prepares a
  keyset transaction. It has one function of its own (\<open>withFallbackPrivateKey\<close>),
  module-level statements that run at import time, and the asynchronous \<open>main\<close>.
  Everything else is imported (viem, the orbit SDK, dotenv): these imports are taken as a
  parameter, the record \<open>sdk\<close>, and every theorem holds for every value of it.

  Conventions of the embedding:
  \<^item> \<open>process.env\<close> (as it stands after dotenv's \<open>config()\<close> on line 13) is a map
    from variable names to strings; \<open>None\<close> is JavaScript's \<open>undefined\<close>;
  \<^item> an exception is the left summand of a result; a rejected promise that is awaited
    is the same thing, since \<open>await\<close> rethrows;
  \<^item> every call of an import and every console line is appended to the trace of the
    state, with the arguments of the call, so that the order of effects can be stated;
  \<^item> the two random sources (\<open>generatePrivateKey\<close>, \<open>generateChainId\<close>) read a counter
    of the state and advance it;
  \<^item> an object argument \<open>{a: x, b: y}\<close> of an import becomes positional arguments in
    the order of the source; objects the script keeps become records.
  An awaited promise is assumed to settle (resolve or reject).
\<close>

subsection \<open>Values\<close>

record jsError =
  name :: string
  message :: string

definition newError :: "string \<Rightarrow> jsError" where
  "newError msg = \<lparr>name = ''Error'', message = msg\<rparr>"

text \<open>\<open>Error.prototype.toString\<close>, which the template literal on line 119 applies.\<close>

definition toString :: "jsError \<Rightarrow> string" where
  "toString e =
     (if name e = [] then message e
      else if message e = [] then name e
      else name e @ '': '' @ message e)"

type_synonym env = "string \<rightharpoonup> string"

record PrivateKeyAccount =
  address :: string
  publicKey :: string

datatype Chain = Chain nat string

definition arbitrumSepolia :: Chain where
  "arbitrumSepolia = Chain 421614 ''Arbitrum Sepolia''"

text \<open>The value of \<open>http(url)\<close> is represented by its argument.\<close>

datatype Transport = http "string option"

record PublicClient =
  chain' :: Chain
  transport :: Transport

record WalletClient = PublicClient +
  account :: PrivateKeyAccount

record TransactionRequest =
  chainId :: nat
  calldata :: string

record TransactionReceipt =
  transactionHash :: string
  logs :: string

text \<open>
  \<open>CoreContracts\<close> has the two fields the keyset request takes (the SDK's
  \<open>Pick<CoreContracts, 'upgradeExecutor' | 'sequencerInbox'>\<close>) and the two the script
  prints.
\<close>

record KeysetContracts =
  upgradeExecutor :: string
  sequencerInbox :: string

record CoreContracts = KeysetContracts +
  rollup :: string
  inbox :: string

record CreateRollupParams =
  config :: string
  batchPosters :: "string list"
  validators :: "string list"
  nativeToken :: "string option"

subsection \<open>Effects\<close>

datatype logArg = Str string | Num nat | Obj CoreContracts

datatype event =
    ConsoleWarn string
  | ConsoleLog "logArg list"
  | ConsoleError string
  | GeneratePrivateKey
  | SanitizePrivateKey string
  | PrivateKeyToAccount string
  | CreatePublicClient PublicClient
  | CreateWalletClient WalletClient
  | GenerateChainId
  | PrepareChainConfig nat string bool
  | CreateRollupPrepareDeploymentParamsConfig PublicClient nat string string
  | CreateRollupPrepareTransactionRequest CreateRollupParams string PublicClient
  | SendTransaction WalletClient TransactionRequest
  | WaitForTransactionReceipt PublicClient string
  | CreateRollupPrepareTransactionReceipt TransactionReceipt
  | GetCoreContracts TransactionReceipt
  | SetValidKeysetPrepareTransactionRequest KeysetContracts string string PublicClient

record state =
  trace :: "event list"
  rng :: nat

type_synonym 'a prog = "state \<Rightarrow> (jsError + 'a) \<times> state"

definition ret :: "'a \<Rightarrow> 'a prog" where
  "ret x s = (Inr x, s)"

definition throw :: "jsError \<Rightarrow> 'a prog" where
  "throw e s = (Inl e, s)"

definition bnd :: "'a prog \<Rightarrow> ('a \<Rightarrow> 'b prog) \<Rightarrow> 'b prog" where
  "bnd m f s = (case m s of (Inl e, s') \<Rightarrow> (Inl e, s') | (Inr x, s') \<Rightarrow> f x s')"

definition tryCatch :: "unit prog \<Rightarrow> (jsError \<Rightarrow> unit prog) \<Rightarrow> unit prog" where
  "tryCatch m h s = (case m s of (Inl e, s') \<Rightarrow> h e s' | (Inr x, s') \<Rightarrow> (Inr x, s'))"

text \<open>A call of an import: the call is recorded, and its result or exception returned.\<close>

definition call :: "event \<Rightarrow> jsError + 'a \<Rightarrow> 'a prog" where
  "call ev r s = (r, s\<lparr>trace := trace s @ [ev]\<rparr>)"

text \<open>A call of a random source.\<close>

definition draw :: "event \<Rightarrow> (nat \<Rightarrow> 'a) \<Rightarrow> 'a prog" where
  "draw ev f s = (Inr (f (rng s)), s\<lparr>trace := trace s @ [ev], rng := Suc (rng s)\<rparr>)"

subsection \<open>The imports\<close>

record sdk =
  generatePrivateKey :: "nat \<Rightarrow> string"
  sanitizePrivateKey :: "string \<Rightarrow> jsError + string"
  privateKeyToAccount :: "string \<Rightarrow> jsError + PrivateKeyAccount"
  generateChainId :: "nat \<Rightarrow> nat"
  prepareChainConfig :: "nat \<Rightarrow> string \<Rightarrow> bool \<Rightarrow> string"
  createRollupPrepareDeploymentParamsConfig ::
    "PublicClient \<Rightarrow> nat \<Rightarrow> string \<Rightarrow> string \<Rightarrow> jsError + string"
  createRollupPrepareTransactionRequest ::
    "CreateRollupParams \<Rightarrow> string \<Rightarrow> PublicClient \<Rightarrow> jsError + TransactionRequest"
  sendTransaction :: "WalletClient \<Rightarrow> TransactionRequest \<Rightarrow> jsError + string"
  waitForTransactionReceipt :: "PublicClient \<Rightarrow> string \<Rightarrow> jsError + TransactionReceipt"
  createRollupPrepareTransactionReceipt :: "TransactionReceipt \<Rightarrow> jsError + TransactionReceipt"
  getCoreContracts :: "TransactionReceipt \<Rightarrow> jsError + CoreContracts"
  setValidKeysetPrepareTransactionRequest ::
    "KeysetContracts \<Rightarrow> string \<Rightarrow> string \<Rightarrow> PublicClient \<Rightarrow> jsError + TransactionRequest"

subsection \<open>Module level (lines 15 to 60)\<close>

definition withFallbackPrivateKey :: "sdk \<Rightarrow> string option \<Rightarrow> string prog" where
  "withFallbackPrivateKey sdk privateKey =
     (if privateKey = None \<or> privateKey = Some []
      then draw GeneratePrivateKey (generatePrivateKey sdk)
      else call (SanitizePrivateKey (the privateKey)) (sanitizePrivateKey sdk (the privateKey)))"

definition missingDeployerKey :: string where
  "missingDeployerKey = ''Please provide the \"DEPLOYER_PRIVATE_KEY\" environment variable''"

definition missingFeeToken :: string where
  "missingFeeToken = ''Please provide the \"CUSTOM_FEE_TOKEN_ADDRESS\" environment variable''"

definition rpcWarning :: string where
  "rpcWarning =
     ''Warning: you may encounter timeout errors while running the script with the default rpc endpoint. '' @
     ''Please provide the \"PARENT_CHAIN_RPC\" environment variable instead.''"

text \<open>The module's constants that \<open>main\<close> reads.\<close>

record globals =
  batchPoster :: string
  validator :: string
  parentChainPublicClient :: PublicClient
  deployer :: PrivateKeyAccount
  walletClient :: WalletClient

text \<open>Lines 37 to 43: the addresses of the batch poster and of the validator.\<close>

definition identities :: "sdk \<Rightarrow> env \<Rightarrow> (string \<times> string) prog" where
  "identities sdk env =
     bnd (withFallbackPrivateKey sdk (env ''BATCH_POSTER_PRIVATE_KEY'')) (\<lambda>batchPosterPrivateKey.
     bnd (call (PrivateKeyToAccount batchPosterPrivateKey)
            (privateKeyToAccount sdk batchPosterPrivateKey)) (\<lambda>batchPosterAccount.
     bnd (withFallbackPrivateKey sdk (env ''VALIDATOR_PRIVATE_KEY'')) (\<lambda>validatorPrivateKey.
     bnd (call (PrivateKeyToAccount validatorPrivateKey)
            (privateKeyToAccount sdk validatorPrivateKey)) (\<lambda>validatorAccount.
     ret (address batchPosterAccount, address validatorAccount)))))"

text \<open>
  Lines 45 to 60: the public client, the deployer account and the wallet client.
  \<open>deployerKey\<close> is \<open>process.env.DEPLOYER_PRIVATE_KEY\<close>, a string once the guard of
  line 23 has passed.
\<close>

definition clients ::
  "sdk \<Rightarrow> env \<Rightarrow> string \<Rightarrow> (PublicClient \<times> PrivateKeyAccount \<times> WalletClient) prog" where
  "clients sdk env deployerKey =
     (let parentChain = arbitrumSepolia;
          publicClient = \<lparr>chain' = parentChain, transport = http (env ''PARENT_CHAIN_RPC'')\<rparr> in
      bnd (call (CreatePublicClient publicClient) (Inr publicClient)) (\<lambda>parentChainPublicClient.
      bnd (call (SanitizePrivateKey deployerKey)
             (sanitizePrivateKey sdk deployerKey)) (\<lambda>deployerPrivateKey.
      bnd (call (PrivateKeyToAccount deployerPrivateKey)
             (privateKeyToAccount sdk deployerPrivateKey)) (\<lambda>deployer.
      let wallet = \<lparr>chain' = parentChain, transport = http (env ''PARENT_CHAIN_RPC''),
                    account = deployer\<rparr> in
      bnd (call (CreateWalletClient wallet) (Inr wallet)) (\<lambda>walletClient.
      ret (parentChainPublicClient, deployer, walletClient))))))"

text \<open>Lines 23 to 60 in order: the two guards, the warning, then the two blocks above.\<close>

definition startup :: "sdk \<Rightarrow> env \<Rightarrow> globals prog" where
  "startup sdk env =
     (if env ''DEPLOYER_PRIVATE_KEY'' = None then throw (newError missingDeployerKey)
      else if env ''CUSTOM_FEE_TOKEN_ADDRESS'' = None then throw (newError missingFeeToken)
      else
        bnd (if env ''PARENT_CHAIN_RPC'' = None \<or> env ''PARENT_CHAIN_RPC'' = Some []
             then call (ConsoleWarn rpcWarning) (Inr ()) else ret ()) (\<lambda>_.
        bnd (identities sdk env) (\<lambda>(batchPoster, validator).
        bnd (clients sdk env (the (env ''DEPLOYER_PRIVATE_KEY'')))
          (\<lambda>(parentChainPublicClient, deployer, walletClient).
        ret \<lparr>batchPoster = batchPoster, validator = validator,
             parentChainPublicClient = parentChainPublicClient, deployer = deployer,
             walletClient = walletClient\<rparr>))))"

subsection \<open>main (lines 62 to 137)\<close>

definition keyset :: string where
  "keyset =
     ''0x000000000000000100000000000000010121600e6aaa4020e004ce635a088fff55a10e2e53cdb6bff78b48'' @
     ''b37e7d3ab93c8167e4c719a123cd051726132b3c35b113380606924fddcb816562ae7616fc7f3f310cc65a60'' @
     ''5b687157340647613f449471434a86fd528b1b68dccd91ab18ee7eb116db8475834d9c7577b034db754bfdd6'' @
     ''9f3b4f4e37599b9691fba1bf973777e49ed7b01fa6bbc06f41db6e8d85268a7b01912b627c19bb9baac20cd1'' @
     ''3fca76d08a9783b54c2c50fb8f513760114cd0b73161c2aaa8042e7dc5d5406720e31cde018fa7068a474ba9'' @
     ''85d6b9690cfd3cd3b88b1b9cb680b59ef089eddbc2fa875d0b01457688b3d7b7eabe4fb4018a812c03e19e84'' @
     ''c802f5b12d619715a8ac920831510636a641417adf8650f697bbe10457d5bd06ca261b4194efa9fc5b42eaaa''"

definition placeholderContracts :: KeysetContracts where
  "placeholderContracts =
     \<lparr>upgradeExecutor = ''0x15b5BDf7a5e0305B9a4bE413383C9b1500C8FCF2'',
      sequencerInbox = ''0x6c97864CE4bEf387dE0b3310A44230f7E3F1be0D''\<rparr>"

text \<open>Lines 63 to 78: the chain id, the fee token and the deployment configuration.\<close>

definition chainParameters :: "sdk \<Rightarrow> env \<Rightarrow> globals \<Rightarrow> (string \<times> string option) prog" where
  "chainParameters sdk env g =
     bnd (draw GenerateChainId (generateChainId sdk)) (\<lambda>chainId.
     let nativeToken = env ''CUSTOM_FEE_TOKEN_ADDRESS'' in
     bnd (call (PrepareChainConfig chainId (address (deployer g)) True)
            (Inr (prepareChainConfig sdk chainId (address (deployer g)) True))) (\<lambda>chainConfig.
     bnd (call (CreateRollupPrepareDeploymentParamsConfig (parentChainPublicClient g) chainId
                  (address (deployer g)) chainConfig)
            (createRollupPrepareDeploymentParamsConfig sdk (parentChainPublicClient g) chainId
                  (address (deployer g)) chainConfig)) (\<lambda>createRollupConfig.
     ret (createRollupConfig, nativeToken))))"

text \<open>Lines 84 to 116: the body of the first \<open>try\<close>.\<close>

definition deployment :: "sdk \<Rightarrow> globals \<Rightarrow> string \<Rightarrow> string option \<Rightarrow> unit prog" where
  "deployment sdk g createRollupConfig nativeToken' =
     (let params = \<lparr>config = createRollupConfig, batchPosters = [batchPoster g],
                    validators = [validator g], nativeToken = nativeToken'\<rparr> in
      bnd (call (CreateRollupPrepareTransactionRequest params (address (deployer g))
                   (parentChainPublicClient g))
             (createRollupPrepareTransactionRequest sdk params (address (deployer g))
                   (parentChainPublicClient g))) (\<lambda>txRequest.
      bnd (call (ConsoleLog [Str ''Transaction request prepared successfully'']) (Inr ())) (\<lambda>_.
      bnd (call (ConsoleLog [Str ''Parent Chain ID:'', Num (chainId txRequest)]) (Inr ())) (\<lambda>_.
      bnd (call (ConsoleLog [Str ''Creating rollup...'']) (Inr ())) (\<lambda>_.
      bnd (call (SendTransaction (walletClient g) txRequest)
             (sendTransaction sdk (walletClient g) txRequest)) (\<lambda>txHash.
      bnd (call (ConsoleLog [Str ''Transaction sent. Waiting for confirmation...'']) (Inr ())) (\<lambda>_.
      bnd (call (WaitForTransactionReceipt (parentChainPublicClient g) txHash)
             (waitForTransactionReceipt sdk (parentChainPublicClient g) txHash)) (\<lambda>receipt.
      bnd (call (ConsoleLog [Str (''Transaction confirmed: '' @ transactionHash receipt)])
             (Inr ())) (\<lambda>_.
      bnd (call (CreateRollupPrepareTransactionReceipt receipt)
             (createRollupPrepareTransactionReceipt sdk receipt)) (\<lambda>txReceipt.
      bnd (call (GetCoreContracts txReceipt) (getCoreContracts sdk txReceipt)) (\<lambda>coreContracts.
      bnd (call (ConsoleLog [Str ''Core contracts:'', Obj coreContracts]) (Inr ())) (\<lambda>_.
      bnd (call (ConsoleLog [Str (''Rollup address: '' @ rollup coreContracts)]) (Inr ())) (\<lambda>_.
      call (ConsoleLog [Str (''Inbox address: '' @ inbox coreContracts)]) (Inr ()))))))))))))))"

text \<open>Lines 123 to 132: the body of the second \<open>try\<close>. The request it builds is dropped.\<close>

definition keysetRequest :: "sdk \<Rightarrow> globals \<Rightarrow> unit prog" where
  "keysetRequest sdk g =
     bnd (call (SetValidKeysetPrepareTransactionRequest placeholderContracts keyset
                  (address (deployer g)) (parentChainPublicClient g))
            (setValidKeysetPrepareTransactionRequest sdk placeholderContracts keyset
                  (address (deployer g)) (parentChainPublicClient g))) (\<lambda>txRequest.
     ret ())"

text \<open>Lines 83 to 120: the first \<open>try\<close> statement, whose \<open>catch\<close> block prints the error.\<close>

definition deploymentPhase :: "sdk \<Rightarrow> globals \<Rightarrow> string \<Rightarrow> string option \<Rightarrow> unit prog" where
  "deploymentPhase sdk g createRollupConfig nativeToken' =
     tryCatch (deployment sdk g createRollupConfig nativeToken')
       (\<lambda>error. call (ConsoleError (''Rollup creation failed with error: '' @ toString error))
                  (Inr ()))"

text \<open>Lines 122 to 135: the second \<open>try\<close> statement, whose \<open>catch\<close> block is empty.\<close>

definition keysetPhase :: "sdk \<Rightarrow> globals \<Rightarrow> unit prog" where
  "keysetPhase sdk g = tryCatch (keysetRequest sdk g) (\<lambda>error. ret ())"

definition main :: "sdk \<Rightarrow> env \<Rightarrow> globals \<Rightarrow> unit prog" where
  "main sdk env g =
     bnd (chainParameters sdk env g) (\<lambda>(createRollupConfig, nativeToken).
     bnd (deploymentPhase sdk g createRollupConfig nativeToken) (\<lambda>_.
     keysetPhase sdk g))"

text \<open>The whole script: the module-level statements, then \<open>main()\<close> on line 139.\<close>

definition program :: "sdk \<Rightarrow> env \<Rightarrow> unit prog" where
  "program sdk env = bnd (startup sdk env) (main sdk env)"

subsection \<open>What a run emits\<close>

text \<open>The events a computation appends to the trace when it starts in state \<open>s\<close>.\<close>

definition events :: "'a prog \<Rightarrow> state \<Rightarrow> event list" where
  "events m s = drop (length (trace s)) (trace (snd (m s)))"

text \<open>A computation only appends to the trace, and every event it appends satisfies \<open>P\<close>.\<close>

definition emits :: "(event \<Rightarrow> bool) \<Rightarrow> 'a prog \<Rightarrow> bool" where
  "emits P m = (\<forall>s. \<exists>evs. trace (snd (m s)) = trace s @ evs \<and> list_all P evs)"

text \<open>A computation only appends to the trace.\<close>

definition extends :: "'a prog \<Rightarrow> bool" where
  "extends m = emits (\<lambda>_. True) m"

text \<open>Every value a computation returns satisfies \<open>Q\<close>.\<close>

definition returns :: "('a \<Rightarrow> bool) \<Rightarrow> 'a prog \<Rightarrow> bool" where
  "returns Q m = (\<forall>s x s'. m s = (Inr x, s') \<longrightarrow> Q x)"

text \<open>The \<open>coreContracts\<close> arguments of the keyset requests in a list of events.\<close>

fun keysetArgs :: "event \<Rightarrow> KeysetContracts list" where
  "keysetArgs (SetValidKeysetPrepareTransactionRequest cc k a c) = [cc]"
| "keysetArgs _ = []"

definition keysetCalls :: "event list \<Rightarrow> KeysetContracts list" where
  "keysetCalls evs = concat (map keysetArgs evs)"


text \<open>The account of \<open>DEPLOYER_PRIVATE_KEY\<close>: the expression of line 53, when it has a value.\<close>

definition deployerIdentity :: "sdk \<Rightarrow> env \<Rightarrow> PrivateKeyAccount option" where
  "deployerIdentity sdk env =
     (case env ''DEPLOYER_PRIVATE_KEY'' of None \<Rightarrow> None
      | Some d \<Rightarrow> (case sanitizePrivateKey sdk d of Inl e \<Rightarrow> None
          | Inr k \<Rightarrow> (case privateKeyToAccount sdk k of Inl e \<Rightarrow> None | Inr a \<Rightarrow> Some a)))"

text \<open>The shape of the events of the three parts of a run, used in the proofs.\<close>

definition keyEvent :: "event \<Rightarrow> bool" where
  "keyEvent ev =
     (case ev of GeneratePrivateKey \<Rightarrow> True | SanitizePrivateKey k \<Rightarrow> k \<noteq> []
      | PrivateKeyToAccount k \<Rightarrow> True | _ \<Rightarrow> False)"

definition startupEvent :: "sdk \<Rightarrow> env \<Rightarrow> event \<Rightarrow> bool" where
  "startupEvent sdk env ev =
     (case ev of
        ConsoleWarn w \<Rightarrow>
          w = rpcWarning \<and> (env ''PARENT_CHAIN_RPC'' = None \<or> env ''PARENT_CHAIN_RPC'' = Some [])
      | GeneratePrivateKey \<Rightarrow> True
      | SanitizePrivateKey k \<Rightarrow> True
      | PrivateKeyToAccount k \<Rightarrow> True
      | CreatePublicClient c \<Rightarrow> True
      | CreateWalletClient w \<Rightarrow> deployerIdentity sdk env = Some (account w)
      | _ \<Rightarrow> False)"

definition bodyEvent :: "env \<Rightarrow> globals \<Rightarrow> event \<Rightarrow> bool" where
  "bodyEvent env g ev =
     (case ev of
        ConsoleLog l \<Rightarrow> True
      | ConsoleError l \<Rightarrow> True
      | GenerateChainId \<Rightarrow> True
      | PrepareChainConfig i owner dac \<Rightarrow> True
      | CreateRollupPrepareDeploymentParamsConfig c i owner cfg \<Rightarrow> True
      | CreateRollupPrepareTransactionRequest p a c \<Rightarrow>
          nativeToken p = env ''CUSTOM_FEE_TOKEN_ADDRESS''
      | SendTransaction w t \<Rightarrow> w = walletClient g
      | WaitForTransactionReceipt c h \<Rightarrow> True
      | CreateRollupPrepareTransactionReceipt r \<Rightarrow> True
      | GetCoreContracts r \<Rightarrow> True
      | _ \<Rightarrow> False)"

text \<open>
  Modelled from the spec: the endpoint a transport resolves to. viem's \<open>http\<close> is not
  among the sources; the spec (sections 4.2 and 6) says that a missing or empty endpoint
  falls back to the default public endpoint, which is the parameter \<open>fallback\<close> here.
\<close>

definition endpoint :: "string \<Rightarrow> Transport \<Rightarrow> string" where
  "endpoint fallback t =
     (case t of http None \<Rightarrow> fallback
      | http (Some url) \<Rightarrow> if url = [] then fallback else url)"


subsection \<open>A concrete environment and concrete imports\<close>

text \<open>
  Used to run the script on concrete inputs. The imports are a stub of the chain SDK whose
  deployment returns the contracts \<open>{rollup: 0xAAA, inbox: 0xBBB}\<close>; the stub's key
  normalisation rejects the empty string.
\<close>

definition mockSdk :: sdk where
  "mockSdk =
     \<lparr>generatePrivateKey = (\<lambda>n. ''0xk'' @ replicate n (CHR ''1'')),
      sanitizePrivateKey = (\<lambda>k. if k = [] then Inl (newError ''empty key'') else Inr k),
      privateKeyToAccount = (\<lambda>k. Inr \<lparr>address = ''addr-'' @ k, publicKey = ''pub-'' @ k\<rparr>),
      generateChainId = (\<lambda>n. 1000 + n),
      prepareChainConfig = (\<lambda>i owner dac. ''chainConfig''),
      createRollupPrepareDeploymentParamsConfig = (\<lambda>c i owner cfg. Inr ''config''),
      createRollupPrepareTransactionRequest =
        (\<lambda>p a c. Inr \<lparr>chainId = 421614, calldata = ''createRollup''\<rparr>),
      sendTransaction = (\<lambda>w t. Inr ''0xhash''),
      waitForTransactionReceipt = (\<lambda>c h. Inr \<lparr>transactionHash = h, logs = ''logs''\<rparr>),
      createRollupPrepareTransactionReceipt = Inr,
      getCoreContracts =
        (\<lambda>r. Inr \<lparr>upgradeExecutor = ''0xCCC'', sequencerInbox = ''0xDDD'',
                    rollup = ''0xAAA'', inbox = ''0xBBB''\<rparr>),
      setValidKeysetPrepareTransactionRequest =
        (\<lambda>cc k a c. Inr \<lparr>chainId = 421614, calldata = ''setValidKeyset''\<rparr>)\<rparr>"

definition transportError :: jsError where
  "transportError = \<lparr>name = ''HttpRequestError'', message = ''HTTP request failed.''\<rparr>"

text \<open>The same imports with a transport error at submission.\<close>

definition submissionFails :: sdk where
  "submissionFails = mockSdk\<lparr>sendTransaction := \<lambda>w t. Inl transportError\<rparr>"


definition mockEnv :: env where
  "mockEnv = [''DEPLOYER_PRIVATE_KEY'' \<mapsto> ''0xd'', ''CUSTOM_FEE_TOKEN_ADDRESS'' \<mapsto> ''0xFEE001'']"

definition onlyDeployerKey :: env where
  "onlyDeployerKey = [''DEPLOYER_PRIVATE_KEY'' \<mapsto> ''0xd'']"

definition withRpc :: env where
  "withRpc =
     [''DEPLOYER_PRIVATE_KEY'' \<mapsto> ''0xd'', ''CUSTOM_FEE_TOKEN_ADDRESS'' \<mapsto> ''0xFEE001'',
      ''PARENT_CHAIN_RPC'' \<mapsto> ''https://rpc.example'']"

definition emptyDeployerKey :: env where
  "emptyDeployerKey =
     [''DEPLOYER_PRIVATE_KEY'' \<mapsto> [], ''CUSTOM_FEE_TOKEN_ADDRESS'' \<mapsto> ''0xFEE001'']"

definition emptyFeeToken :: env where
  "emptyFeeToken = [''DEPLOYER_PRIVATE_KEY'' \<mapsto> ''0xd'', ''CUSTOM_FEE_TOKEN_ADDRESS'' \<mapsto> []]"


definition initial :: state where
  "initial = \<lparr>trace = [], rng = 0\<rparr>"

text \<open>The module constants that \<open>startup mockSdk mockEnv\<close> computes.\<close>

definition mockClient :: PublicClient where
  "mockClient = \<lparr>chain' = arbitrumSepolia, transport = http None\<rparr>"

definition mockDeployer :: PrivateKeyAccount where
  "mockDeployer = \<lparr>address = ''addr-0xd'', publicKey = ''pub-0xd''\<rparr>"

definition mockWallet :: WalletClient where
  "mockWallet = \<lparr>chain' = arbitrumSepolia, transport = http None, account = mockDeployer\<rparr>"

definition mockGlobals :: globals where
  "mockGlobals =
     \<lparr>batchPoster = ''addr-0xk'', validator = ''addr-0xk1'',
      parentChainPublicClient = mockClient, deployer = mockDeployer, walletClient = mockWallet\<rparr>"

text \<open>The module constants that \<open>startup mockSdk withRpc\<close> computes.\<close>

definition rpcGlobals :: globals where
  "rpcGlobals =
     \<lparr>batchPoster = ''addr-0xk'', validator = ''addr-0xk1'',
      parentChainPublicClient =
        \<lparr>chain' = arbitrumSepolia, transport = http (Some ''https://rpc.example'')\<rparr>,
      deployer = mockDeployer,
      walletClient =
        \<lparr>chain' = arbitrumSepolia, transport = http (Some ''https://rpc.example''),
         account = mockDeployer\<rparr>\<rparr>"

section \<open>Properties\<close>

subsection \<open>The combinators\<close>

lemmas prog_defs = ret_def throw_def bnd_def tryCatch_def call_def draw_def

lemma emits_ret: "emits P (ret x)"
  by (simp add: emits_def ret_def)

lemma emits_throw: "emits P (throw e)"
  by (simp add: emits_def throw_def)

lemma emits_call: "P ev \<Longrightarrow> emits P (call ev r)"
  by (simp add: emits_def call_def)

lemma emits_draw: "P ev \<Longrightarrow> emits P (draw ev f)"
  by (simp add: emits_def draw_def)

lemma emits_bnd:
  assumes m: "emits P m" and f: "\<And>x s s'. m s = (Inr x, s') \<Longrightarrow> emits P (f x)"
  shows "emits P (bnd m f)"
  unfolding emits_def
proof
  fix s
  obtain r s1 where ms: "m s = (r, s1)" by (cases "m s")
  from m obtain evs where evs: "trace s1 = trace s @ evs" "list_all P evs"
    unfolding emits_def using ms by (metis snd_conv)
  show "\<exists>evs. trace (snd (bnd m f s)) = trace s @ evs \<and> list_all P evs"
  proof (cases r)
    case (Inl e)
    with ms evs show ?thesis by (simp add: bnd_def)
  next
    case (Inr x)
    with ms f have "emits P (f x)" by blast
    then obtain evs' where "trace (snd (f x s1)) = trace s1 @ evs'" "list_all P evs'"
      unfolding emits_def by blast
    with Inr ms evs show ?thesis by (simp add: bnd_def)
  qed
qed

lemma emits_seq: "emits P m \<Longrightarrow> (\<And>x. emits P (f x)) \<Longrightarrow> emits P (bnd m f)"
  by (rule emits_bnd)

lemma emits_bnd_call:
  "P ev \<Longrightarrow> (\<And>x. r = Inr x \<Longrightarrow> emits P (f x)) \<Longrightarrow> emits P (bnd (call ev r) f)"
  by (rule emits_bnd) (auto simp: emits_call call_def)

lemma emits_tryCatch:
  assumes m: "emits P m" and h: "\<And>e. emits P (h e)"
  shows "emits P (tryCatch m h)"
  unfolding emits_def
proof
  fix s
  obtain r s1 where ms: "m s = (r, s1)" by (cases "m s")
  from m obtain evs where evs: "trace s1 = trace s @ evs" "list_all P evs"
    unfolding emits_def using ms by (metis snd_conv)
  show "\<exists>evs. trace (snd (tryCatch m h s)) = trace s @ evs \<and> list_all P evs"
  proof (cases r)
    case (Inr x)
    with ms evs show ?thesis by (simp add: tryCatch_def)
  next
    case (Inl e)
    from h obtain evs' where "trace (snd (h e s1)) = trace s1 @ evs'" "list_all P evs'"
      unfolding emits_def by blast
    with Inl ms evs show ?thesis by (simp add: tryCatch_def)
  qed
qed

lemma emits_if: "(c \<Longrightarrow> emits P a) \<Longrightarrow> (\<not> c \<Longrightarrow> emits P b) \<Longrightarrow> emits P (if c then a else b)"
  by simp

lemma emits_case_prod: "(\<And>a b. emits P (f a b)) \<Longrightarrow> emits P (case_prod f p)"
  by (cases p) simp

lemma emits_withFallbackPrivateKey:
  "P GeneratePrivateKey \<Longrightarrow> (\<And>x. k = Some x \<Longrightarrow> x \<noteq> [] \<Longrightarrow> P (SanitizePrivateKey x)) \<Longrightarrow>
   emits P (withFallbackPrivateKey sdk k)"
  by (cases k) (auto simp: withFallbackPrivateKey_def intro: emits_call emits_draw)

lemmas emits_intros = emits_if emits_throw emits_ret emits_seq emits_tryCatch
  emits_case_prod emits_withFallbackPrivateKey emits_call emits_draw

lemma emits_events:
  "emits P m \<Longrightarrow> trace (snd (m s)) = trace s @ events m s \<and> list_all P (events m s)"
  unfolding emits_def events_def by (metis append_eq_conv_conj)

lemma emits_set: "emits P m \<Longrightarrow> ev \<in> set (events m s) \<Longrightarrow> P ev"
  using emits_events [of P m s] by (simp add: list_all_iff)

lemma returns_ret: "Q x \<Longrightarrow> returns Q (ret x)"
  by (simp add: returns_def ret_def)

lemma returns_throw: "returns Q (throw e)"
  by (simp add: returns_def throw_def)

lemma returns_bnd_call: "(\<And>x. r = Inr x \<Longrightarrow> returns Q (f x)) \<Longrightarrow> returns Q (bnd (call ev r) f)"
  by (auto simp: returns_def bnd_def call_def split: sum.splits)

lemma returns_bnd: "(\<And>x. returns Q (f x)) \<Longrightarrow> returns Q (bnd m f)"
  by (auto simp: returns_def bnd_def split: sum.splits prod.splits)

lemma returns_bnd2: "returns R m \<Longrightarrow> (\<And>x. R x \<Longrightarrow> returns Q (f x)) \<Longrightarrow> returns Q (bnd m f)"
  unfolding returns_def bnd_def by (fastforce split: sum.splits prod.splits)

lemma returns_if: "(c \<Longrightarrow> returns Q a) \<Longrightarrow> (\<not> c \<Longrightarrow> returns Q b) \<Longrightarrow> returns Q (if c then a else b)"
  by simp

lemma returns_case_prod: "(\<And>a b. returns Q (f a b)) \<Longrightarrow> returns Q (case_prod f p)"
  by (cases p) simp

lemma returnsD: "returns Q m \<Longrightarrow> m s = (Inr x, s') \<Longrightarrow> Q x"
  unfolding returns_def by blast

lemma extends_ret: "extends (ret x)"
  by (simp add: extends_def emits_ret)

lemma extends_throw: "extends (throw e)"
  by (simp add: extends_def emits_throw)

lemma extends_call: "extends (call ev r)"
  by (simp add: extends_def emits_call)

lemma extends_draw: "extends (draw ev f)"
  by (simp add: extends_def emits_draw)

lemma extends_bnd: "extends m \<Longrightarrow> (\<And>x. extends (f x)) \<Longrightarrow> extends (bnd m f)"
  unfolding extends_def by (rule emits_bnd)

lemma extends_tryCatch: "extends m \<Longrightarrow> (\<And>e. extends (h e)) \<Longrightarrow> extends (tryCatch m h)"
  unfolding extends_def by (rule emits_tryCatch)

lemma extends_if: "(c \<Longrightarrow> extends a) \<Longrightarrow> (\<not> c \<Longrightarrow> extends b) \<Longrightarrow> extends (if c then a else b)"
  by simp

lemma extends_case_prod: "(\<And>a b. extends (f a b)) \<Longrightarrow> extends (case_prod f p)"
  by (cases p) simp

lemma extends_withFallbackPrivateKey: "extends (withFallbackPrivateKey sdk k)"
  by (simp add: withFallbackPrivateKey_def extends_call extends_draw)

lemmas extends_intros = extends_if extends_ret extends_throw extends_call extends_draw extends_bnd
  extends_tryCatch extends_case_prod extends_withFallbackPrivateKey

lemma eventsI: "trace (snd (m s)) = trace s @ evs \<Longrightarrow> events m s = evs"
  by (simp add: events_def)

text \<open>The events of a sequence are those of its first part, then those of the rest if it runs.\<close>

lemma events_bnd:
  assumes m: "extends m" and f: "\<And>x. extends (f x)"
  shows "events (bnd m f) s =
    events m s @ (case fst (m s) of Inl e \<Rightarrow> [] | Inr x \<Rightarrow> events (f x) (snd (m s)))"
proof -
  obtain r s1 where ms: "m s = (r, s1)" by (cases "m s")
  from emits_events [OF m [unfolded extends_def], of s] ms
  have t1: "trace s1 = trace s @ events m s" by simp
  show ?thesis
  proof (cases r)
    case (Inl e)
    with ms t1 have "trace (snd (bnd m f s)) = trace s @ events m s" by (simp add: bnd_def)
    then have "events (bnd m f) s = events m s" by (rule eventsI)
    with ms Inl show ?thesis by simp
  next
    case (Inr x)
    from emits_events [OF f [unfolded extends_def], of x s1]
    have "trace (snd (f x s1)) = trace s1 @ events (f x) s1" by simp
    with t1 ms Inr have "trace (snd (bnd m f s)) = trace s @ (events m s @ events (f x) s1)"
      by (simp add: bnd_def)
    then have "events (bnd m f) s = events m s @ events (f x) s1" by (rule eventsI)
    with ms Inr show ?thesis by simp
  qed
qed

lemma fst_bnd:
  "fst (bnd m f s) = (case fst (m s) of Inl e \<Rightarrow> Inl e | Inr x \<Rightarrow> fst (f x (snd (m s))))"
  by (simp add: bnd_def split: prod.splits sum.splits)

lemma events_call: "events (call ev r) s = [ev]"
  by (simp add: events_def call_def)

lemma events_draw: "events (draw ev f) s = [ev]"
  by (simp add: events_def draw_def)

lemma events_ret: "events (ret x) s = []"
  by (simp add: events_def ret_def)

lemma fst_call: "fst (call ev r s) = r"
  by (simp add: call_def)

lemma fst_ret: "fst (ret x s) = Inr x"
  by (simp add: ret_def)

lemma events_withFallbackPrivateKey:
  "events (withFallbackPrivateKey sdk k) s =
     [if k = None \<or> k = Some [] then GeneratePrivateKey else SanitizePrivateKey (the k)]"
  by (simp add: withFallbackPrivateKey_def events_call events_draw)

subsection \<open>The parts of the script\<close>

lemma extends_identities: "extends (identities sdk env)"
  unfolding identities_def by (intro extends_intros)

lemma extends_clients: "extends (clients sdk env d)"
  unfolding clients_def Let_def by (intro extends_intros)

lemma extends_startup: "extends (startup sdk env)"
  unfolding startup_def by (intro extends_intros extends_identities extends_clients)

lemma extends_chainParameters: "extends (chainParameters sdk env g)"
  unfolding chainParameters_def Let_def by (intro extends_intros)

lemma extends_deployment: "extends (deployment sdk g cfg tok)"
  unfolding deployment_def Let_def by (intro extends_intros)

lemma extends_deploymentPhase: "extends (deploymentPhase sdk g cfg tok)"
  unfolding deploymentPhase_def by (intro extends_intros extends_deployment)

lemma extends_keysetPhase: "extends (keysetPhase sdk g)"
  unfolding keysetPhase_def keysetRequest_def by (intro extends_intros)

lemma extends_main: "extends (main sdk env g)"
  unfolding main_def
  by (intro extends_intros extends_chainParameters extends_deploymentPhase extends_keysetPhase)

text \<open>
  Whatever the keyset request returns or throws, the second \<open>try\<close> statement records
  the call and nothing else: the request is dropped, the \<open>catch\<close> block is empty.
\<close>

lemma keysetPhase_run:
  "keysetPhase sdk g =
     call (SetValidKeysetPrepareTransactionRequest placeholderContracts keyset
       (address (deployer g)) (parentChainPublicClient g)) (Inr ())"
  by (rule ext) (simp add: keysetPhase_def keysetRequest_def prog_defs split: sum.splits)

lemma fst_deploymentPhase: "fst (deploymentPhase sdk g cfg tok s) = Inr ()"
  by (simp add: deploymentPhase_def tryCatch_def call_def split: prod.splits sum.splits)

lemma emits_identities_keys: "emits keyEvent (identities sdk env)"
  unfolding identities_def
  by (intro emits_intros) (simp_all add: keyEvent_def)

lemma emits_identities: "emits (startupEvent sdk env) (identities sdk env)"
  unfolding identities_def
  by (intro emits_intros) (simp_all add: startupEvent_def)

lemma emits_clients:
  "env ''DEPLOYER_PRIVATE_KEY'' = Some d \<Longrightarrow> emits (startupEvent sdk env) (clients sdk env d)"
  unfolding clients_def Let_def
  by (intro emits_bnd_call emits_call emits_ret) (auto simp: startupEvent_def deployerIdentity_def)

lemma emits_startup: "emits (startupEvent sdk env) (startup sdk env)"
  unfolding startup_def
  by (intro emits_intros emits_identities emits_clients) (simp_all add: startupEvent_def)

lemma emits_chainParameters: "emits (bodyEvent env g) (chainParameters sdk env g)"
  unfolding chainParameters_def Let_def
  by (intro emits_intros) (simp_all add: bodyEvent_def)

lemma emits_deployment:
  "emits (bodyEvent env g) (deployment sdk g cfg (env ''CUSTOM_FEE_TOKEN_ADDRESS''))"
  unfolding deployment_def Let_def
  by (intro emits_intros) (simp_all add: bodyEvent_def)

lemma emits_deploymentPhase:
  "emits (bodyEvent env g) (deploymentPhase sdk g cfg (env ''CUSTOM_FEE_TOKEN_ADDRESS''))"
  unfolding deploymentPhase_def
  by (intro emits_intros emits_deployment) (simp_all add: bodyEvent_def)

lemma returns_chainParameters:
  "returns (\<lambda>p. snd p = env ''CUSTOM_FEE_TOKEN_ADDRESS'') (chainParameters sdk env g)"
  unfolding chainParameters_def Let_def
  by (intro returns_bnd returns_ret) simp

lemma returns_clients:
  "env ''DEPLOYER_PRIVATE_KEY'' = Some k \<Longrightarrow>
   returns (\<lambda>(pc, d, w).
       pc = \<lparr>chain' = arbitrumSepolia, transport = http (env ''PARENT_CHAIN_RPC'')\<rparr> \<and>
       w = \<lparr>chain' = arbitrumSepolia, transport = http (env ''PARENT_CHAIN_RPC''), account = d\<rparr> \<and>
       deployerIdentity sdk env = Some d)
     (clients sdk env k)"
  unfolding clients_def Let_def
  by (intro returns_bnd_call returns_ret) (auto simp: deployerIdentity_def)

text \<open>What a completed start-up leaves in the module constants.\<close>

lemma returns_startup:
  "returns (\<lambda>g.
       parentChainPublicClient g =
         \<lparr>chain' = arbitrumSepolia, transport = http (env ''PARENT_CHAIN_RPC'')\<rparr> \<and>
       walletClient g =
         \<lparr>chain' = arbitrumSepolia, transport = http (env ''PARENT_CHAIN_RPC''),
          account = deployer g\<rparr> \<and>
       deployerIdentity sdk env = Some (deployer g))
     (startup sdk env)"
  unfolding startup_def
  apply (rule returns_if, rule returns_throw)
  apply (rule returns_if, rule returns_throw)
  apply (rule returns_bnd)
  apply (rule returns_bnd)
  apply (rule returns_case_prod)
  apply (rule returns_bnd2 [OF returns_clients])
   apply simp
  apply (auto intro: returns_ret)
  done

text \<open>The events of \<open>main\<close>, of the start-up and of the whole script, part by part.\<close>

lemma main_events:
  "events (main sdk env g) s =
     events (chainParameters sdk env g) s @
     (case fst (chainParameters sdk env g s) of Inl e \<Rightarrow> []
      | Inr p \<Rightarrow> events (deploymentPhase sdk g (fst p) (env ''CUSTOM_FEE_TOKEN_ADDRESS''))
                  (snd (chainParameters sdk env g s)) @
          [SetValidKeysetPrepareTransactionRequest placeholderContracts keyset
             (address (deployer g)) (parentChainPublicClient g)])"
proof (cases "chainParameters sdk env g s")
  case (Pair r s1)
  show ?thesis
  proof (cases r)
    case (Inl e)
    with Pair show ?thesis
      by (simp add: main_def keysetPhase_run events_bnd extends_chainParameters
          extends_deploymentPhase extends_intros)
  next
    case (Inr p)
    with Pair returnsD [OF returns_chainParameters, of sdk env g s p s1]
    have "snd p = env ''CUSTOM_FEE_TOKEN_ADDRESS''" by simp
    with Pair Inr show ?thesis
      by (simp add: main_def keysetPhase_run events_bnd extends_chainParameters
          extends_deploymentPhase extends_intros fst_deploymentPhase events_call split_def)
  qed
qed

lemma main_result:
  "fst (main sdk env g s) =
     (case fst (chainParameters sdk env g s) of Inl e \<Rightarrow> Inl e | Inr p \<Rightarrow> Inr ())"
  by (simp add: main_def keysetPhase_run fst_bnd fst_deploymentPhase fst_call split_def
      split: sum.splits)

lemma main_event_cases:
  assumes "ev \<in> set (events (main sdk env g) s)"
  shows "bodyEvent env g ev \<or>
    ev = SetValidKeysetPrepareTransactionRequest placeholderContracts keyset
           (address (deployer g)) (parentChainPublicClient g)"
proof -
  note a = emits_set [OF emits_chainParameters]
  note b = emits_set [OF emits_deploymentPhase]
  from assms show ?thesis
    unfolding main_events by (auto split: sum.splits dest: a b)
qed

lemma program_events:
  "events (program sdk env) s =
     events (startup sdk env) s @
     (case fst (startup sdk env s) of Inl e \<Rightarrow> []
      | Inr g \<Rightarrow> events (main sdk env g) (snd (startup sdk env s)))"
  by (simp add: program_def events_bnd extends_startup extends_main)

lemma program_events_startup: "set (events (startup sdk env) s) \<subseteq> set (events (program sdk env) s)"
  by (simp add: program_events)

lemma program_event_cases:
  assumes "ev \<in> set (events (program sdk env) s)"
  shows "startupEvent sdk env ev \<or>
    (\<exists>g s'. startup sdk env s = (Inr g, s') \<and>
       (bodyEvent env g ev \<or>
        ev = SetValidKeysetPrepareTransactionRequest placeholderContracts keyset
               (address (deployer g)) (parentChainPublicClient g)))"
proof -
  note a = emits_set [OF emits_startup]
  from assms show ?thesis
    unfolding program_events
    by (cases "startup sdk env s") (auto split: sum.splits dest: a main_event_cases)
qed

lemma identities_events_nonempty: "events (identities sdk env) s \<noteq> []"
  by (simp add: identities_def events_bnd extends_intros events_withFallbackPrivateKey)

lemma clients_events:
  "\<exists>rest. events (clients sdk env d) s =
     CreatePublicClient \<lparr>chain' = arbitrumSepolia, transport = http (env ''PARENT_CHAIN_RPC'')\<rparr> #
     SanitizePrivateKey d # rest"
  by (simp add: clients_def Let_def events_bnd extends_intros events_call fst_call)

lemma setup_events:
  "events (bnd (identities sdk env) (\<lambda>(batchPoster, validator).
        bnd (clients sdk env d) (\<lambda>(parentChainPublicClient, deployer, walletClient).
        ret \<lparr>batchPoster = batchPoster, validator = validator,
             parentChainPublicClient = parentChainPublicClient, deployer = deployer,
             walletClient = walletClient\<rparr>))) s =
     events (identities sdk env) s @
     (case fst (identities sdk env s) of Inl e \<Rightarrow> []
      | Inr x \<Rightarrow> events (clients sdk env d) (snd (identities sdk env s)))"
  by (simp add: events_bnd extends_intros extends_identities extends_clients
      events_ret split_def split: sum.splits)

lemma startup_events:
  assumes "env ''DEPLOYER_PRIVATE_KEY'' \<noteq> None" "env ''CUSTOM_FEE_TOKEN_ADDRESS'' \<noteq> None"
  shows "\<exists>s1. events (startup sdk env) s =
     (if env ''PARENT_CHAIN_RPC'' = None \<or> env ''PARENT_CHAIN_RPC'' = Some []
      then [ConsoleWarn rpcWarning] else []) @
     events (identities sdk env) s1 @
     (case fst (identities sdk env s1) of Inl e \<Rightarrow> []
      | Inr x \<Rightarrow> events (clients sdk env (the (env ''DEPLOYER_PRIVATE_KEY''))) (snd (identities sdk env s1)))"
proof (cases "env ''PARENT_CHAIN_RPC'' = None \<or> env ''PARENT_CHAIN_RPC'' = Some []")
  case True
  have "events (startup sdk env) s =
     [ConsoleWarn rpcWarning] @
     events (identities sdk env) (snd (call (ConsoleWarn rpcWarning) (Inr ()) s)) @
     (case fst (identities sdk env (snd (call (ConsoleWarn rpcWarning) (Inr ()) s))) of Inl e \<Rightarrow> []
      | Inr x \<Rightarrow> events (clients sdk env (the (env ''DEPLOYER_PRIVATE_KEY'')))
          (snd (identities sdk env (snd (call (ConsoleWarn rpcWarning) (Inr ()) s)))))"
    using assms True
    apply (simp only: startup_def if_True if_False)
    apply (subst events_bnd)
      apply (intro extends_intros extends_identities extends_clients)+
    apply (simp only: setup_events events_call fst_call sum.case)
    done
  with True show ?thesis by auto
next
  case False
  have "events (startup sdk env) s =
     events (identities sdk env) (snd (ret () s)) @
     (case fst (identities sdk env (snd (ret () s))) of Inl e \<Rightarrow> []
      | Inr x \<Rightarrow> events (clients sdk env (the (env ''DEPLOYER_PRIVATE_KEY'')))
          (snd (identities sdk env (snd (ret () s)))))"
    using assms False
    apply (simp only: startup_def if_True if_False)
    apply (subst events_bnd)
      apply (intro extends_intros extends_identities extends_clients)+
    apply (simp only: setup_events events_ret fst_ret sum.case append_Nil)
    done
  with False show ?thesis by auto
qed

lemma startup_events_nonempty:
  assumes d: "env ''DEPLOYER_PRIVATE_KEY'' \<noteq> None" and f: "env ''CUSTOM_FEE_TOKEN_ADDRESS'' \<noteq> None"
  shows "events (startup sdk env) s \<noteq> []"
  using startup_events [OF d f, of sdk s] identities_events_nonempty by auto

lemma startup_warning:
  assumes d: "env ''DEPLOYER_PRIVATE_KEY'' \<noteq> None" and f: "env ''CUSTOM_FEE_TOKEN_ADDRESS'' \<noteq> None"
    and m: "env ''PARENT_CHAIN_RPC'' = None \<or> env ''PARENT_CHAIN_RPC'' = Some []"
  shows "ConsoleWarn rpcWarning \<in> set (events (startup sdk env) s)"
  using startup_events [OF d f, of sdk s] m by auto

lemma startup_client_then_sanitize:
  assumes d: "env ''DEPLOYER_PRIVATE_KEY'' \<noteq> None" and f: "env ''CUSTOM_FEE_TOKEN_ADDRESS'' \<noteq> None"
    and c: "CreatePublicClient c \<in> set (events (startup sdk env) s)"
  shows "SanitizePrivateKey (the (env ''DEPLOYER_PRIVATE_KEY'')) \<in> set (events (startup sdk env) s)"
proof -
  from startup_events [OF d f] obtain s1 where e: "events (startup sdk env) s =
     (if env ''PARENT_CHAIN_RPC'' = None \<or> env ''PARENT_CHAIN_RPC'' = Some []
      then [ConsoleWarn rpcWarning] else []) @
     events (identities sdk env) s1 @
     (case fst (identities sdk env s1) of Inl e \<Rightarrow> []
      | Inr x \<Rightarrow> events (clients sdk env (the (env ''DEPLOYER_PRIVATE_KEY''))) (snd (identities sdk env s1)))" by blast
  have "\<not> keyEvent (CreatePublicClient c)" by (simp add: keyEvent_def)
  with emits_set [OF emits_identities_keys]
  have n: "CreatePublicClient c \<notin> set (events (identities sdk env) s1)" by blast
  from c e n obtain x where x: "fst (identities sdk env s1) = Inr x"
    by (cases "fst (identities sdk env s1)") (auto split: if_splits)
  from clients_events obtain rest where
    "events (clients sdk env (the (env ''DEPLOYER_PRIVATE_KEY''))) (snd (identities sdk env s1)) =
       CreatePublicClient \<lparr>chain' = arbitrumSepolia, transport = http (env ''PARENT_CHAIN_RPC'')\<rparr> #
       SanitizePrivateKey (the (env ''DEPLOYER_PRIVATE_KEY'')) # rest" by blast
  with e x show ?thesis by simp
qed

lemma keysetCalls_append: "keysetCalls (xs @ ys) = keysetCalls xs @ keysetCalls ys"
  by (simp add: keysetCalls_def)

lemma keysetCalls_none:
  "list_all P evs \<Longrightarrow> (\<And>ev. P ev \<Longrightarrow> keysetArgs ev = []) \<Longrightarrow> keysetCalls evs = []"
  by (induction evs) (simp_all add: keysetCalls_def)

lemma keysetArgs_startupEvent: "startupEvent sdk env ev \<Longrightarrow> keysetArgs ev = []"
  by (cases ev) (simp_all add: startupEvent_def)

lemma keysetArgs_bodyEvent: "bodyEvent env g ev \<Longrightarrow> keysetArgs ev = []"
  by (cases ev) (simp_all add: bodyEvent_def)

lemma keysetCalls_main:
  "keysetCalls (events (main sdk env g) s) =
     (case fst (main sdk env g s) of Inl e \<Rightarrow> [] | Inr u \<Rightarrow> [placeholderContracts])"
proof -
  have a: "keysetCalls (events (chainParameters sdk env g) s) = []"
    using emits_events [OF emits_chainParameters] keysetArgs_bodyEvent
    by (blast intro: keysetCalls_none)
  have b: "keysetCalls (events (deploymentPhase sdk g cfg (env ''CUSTOM_FEE_TOKEN_ADDRESS'')) s') = []"
    for cfg s'
    using emits_events [OF emits_deploymentPhase] keysetArgs_bodyEvent
    by (blast intro: keysetCalls_none)
  show ?thesis
    by (simp add: main_events main_result keysetCalls_append a b split: sum.splits)
      (simp add: keysetCalls_def)
qed



subsection \<open>Runs on the concrete imports\<close>

lemmas mock_defs = mockSdk_def submissionFails_def mockEnv_def mockGlobals_def mockClient_def
  mockDeployer_def mockWallet_def initial_def transportError_def

lemmas run_defs = program_def startup_def identities_def clients_def withFallbackPrivateKey_def
  main_def chainParameters_def deployment_def deploymentPhase_def keysetPhase_def
  keysetRequest_def prog_defs Let_def toString_def newError_def

lemma mock_startup_result: "fst (startup mockSdk mockEnv initial) = Inr mockGlobals"
  by (simp add: run_defs mock_defs)

lemma mock_startup_events:
  "events (startup mockSdk mockEnv) initial =
     [ConsoleWarn rpcWarning, GeneratePrivateKey, PrivateKeyToAccount ''0xk'',
      GeneratePrivateKey, PrivateKeyToAccount ''0xk1'', CreatePublicClient mockClient,
      SanitizePrivateKey ''0xd'', PrivateKeyToAccount ''0xd'', CreateWalletClient mockWallet]"
  by (simp add: events_def run_defs mock_defs)


lemma mock_main_result: "fst (main mockSdk mockEnv mockGlobals s) = Inr ()"
  by (simp add: main_result chainParameters_def prog_defs mockSdk_def Let_def)

section \<open>The claims\<close>

subsection \<open>The first \<open>try\<close> never stops the run\<close>

text \<open>
  Claim C1. Once the deployment phase is reached (the configuration of lines 63 to 78 was
  built), whatever the body of the first \<open>try\<close> returns or throws (\<open>r\<close> is arbitrary:
  an error of the request construction, of the submission, of the confirmation wait or of
  the receipt parsing, or success), \<open>main\<close> completes without an exception; an error is
  written to \<open>console.error\<close> with the text of line 119, and the keyset request of
  lines 124 to 132 is the next and last call.
\<close>

theorem deployment_failure_is_logged_and_keyset_phase_runs:
  assumes "chainParameters sdk env g s = (Inr (cfg, tok), s1)"
    and "deployment sdk g cfg tok s1 = (r, s2)"
  shows "main sdk env g s =
     (Inr (), s2\<lparr>trace := trace s2 @
        (case r of Inl e \<Rightarrow> [ConsoleError (''Rollup creation failed with error: '' @ toString e)]
         | Inr u \<Rightarrow> []) @
        [SetValidKeysetPrepareTransactionRequest placeholderContracts keyset
           (address (deployer g)) (parentChainPublicClient g)]\<rparr>)"
proof -
  have "deploymentPhase sdk g cfg tok s1 =
      (case r of
         Inl e \<Rightarrow> call (ConsoleError (''Rollup creation failed with error: '' @ toString e))
                    (Inr ()) s2
       | Inr u \<Rightarrow> (Inr u, s2))"
    using assms(2) by (simp add: deploymentPhase_def tryCatch_def split: sum.splits)
  with assms(1) show ?thesis
    by (cases r) (simp_all add: main_def bnd_def call_def keysetPhase_run)
qed

text \<open>A transport error at submission: the error line, then the keyset request.\<close>

theorem deployment_failure_is_logged_and_keyset_phase_runs_witness:
  "main submissionFails mockEnv mockGlobals initial =
     (Inr (),
      \<lparr>trace =
         [GenerateChainId,
          PrepareChainConfig 1000 ''addr-0xd'' True,
          CreateRollupPrepareDeploymentParamsConfig mockClient 1000 ''addr-0xd'' ''chainConfig'',
          CreateRollupPrepareTransactionRequest
            \<lparr>config = ''config'', batchPosters = [''addr-0xk''], validators = [''addr-0xk1''],
             nativeToken = Some ''0xFEE001''\<rparr> ''addr-0xd'' mockClient,
          ConsoleLog [Str ''Transaction request prepared successfully''],
          ConsoleLog [Str ''Parent Chain ID:'', Num 421614],
          ConsoleLog [Str ''Creating rollup...''],
          SendTransaction mockWallet \<lparr>chainId = 421614, calldata = ''createRollup''\<rparr>,
          ConsoleError ''Rollup creation failed with error: HttpRequestError: HTTP request failed.'',
          SetValidKeysetPrepareTransactionRequest placeholderContracts keyset ''addr-0xd'' mockClient],
       rng = 1\<rparr>)"
proof -
  have h1: "chainParameters submissionFails mockEnv mockGlobals initial =
      (Inr (''config'', Some ''0xFEE001''), snd (chainParameters submissionFails mockEnv mockGlobals initial))"
    by (simp add: chainParameters_def mock_defs prog_defs)
  have h2: "deployment submissionFails mockGlobals ''config'' (Some ''0xFEE001'')
        (snd (chainParameters submissionFails mockEnv mockGlobals initial)) =
      (Inl transportError, snd (deployment submissionFails mockGlobals ''config'' (Some ''0xFEE001'')
        (snd (chainParameters submissionFails mockEnv mockGlobals initial))))"
    by (simp add: deployment_def chainParameters_def mock_defs prog_defs)
  show ?thesis
    using deployment_failure_is_logged_and_keyset_phase_runs [OF h1 h2]
    by (simp add: deployment_def chainParameters_def toString_def mock_defs prog_defs)
qed

subsection \<open>The keyset request and its contracts\<close>

text \<open>
  Claim C2. In every run of the script, for every behaviour of the imports (so whatever
  \<open>getCoreContracts\<close> returned in that run), the keyset requests made are: none when
  the run ends with an exception before the keyset phase, and otherwise exactly one, whose
  \<open>coreContracts\<close> argument is the pair of lines 126 and 127.
\<close>

theorem keyset_request_uses_placeholder_contracts:
  "keysetCalls (events (program sdk env) s) =
     (case fst (program sdk env s) of Inl e \<Rightarrow> [] | Inr u \<Rightarrow> [placeholderContracts])"
proof -
  have a: "keysetCalls (events (startup sdk env) s) = []"
    using emits_events [OF emits_startup] keysetArgs_startupEvent
    by (blast intro: keysetCalls_none)
  show ?thesis
    by (simp add: program_def events_bnd extends_startup extends_main fst_bnd keysetCalls_append a
        keysetCalls_main split: sum.splits) (simp add: keysetCalls_def)
qed

text \<open>
  On the stub SDK the receipt yields the contracts \<open>0xCCC\<close> and \<open>0xDDD\<close>; the request
  is made with the fixed pair all the same.
\<close>

theorem keyset_request_uses_placeholder_contracts_witness:
  "getCoreContracts mockSdk \<lparr>transactionHash = ''0xhash'', logs = ''logs''\<rparr> =
     Inr \<lparr>upgradeExecutor = ''0xCCC'', sequencerInbox = ''0xDDD'', rollup = ''0xAAA'', inbox = ''0xBBB''\<rparr> \<and>
   keysetCalls (events (program mockSdk mockEnv) initial) =
     [\<lparr>upgradeExecutor = ''0x15b5BDf7a5e0305B9a4bE413383C9b1500C8FCF2'',
       sequencerInbox = ''0x6c97864CE4bEf387dE0b3310A44230f7E3F1be0D''\<rparr>]"
proof -
  have "fst (program mockSdk mockEnv initial) = Inr ()"
    by (simp add: program_def fst_bnd mock_startup_result mock_main_result)
  with keyset_request_uses_placeholder_contracts [of mockSdk mockEnv initial]
  show ?thesis by (simp add: placeholderContracts_def mockSdk_def)
qed

text \<open>
  Claim C3 (what the code does). The second \<open>try\<close> statement emits exactly one event, the
  call that builds the keyset request. Nothing is done with the request it returns: no
  \<open>SendTransaction\<close> follows, in any run.
\<close>

theorem keyset_request_is_built_and_dropped:
  "events (keysetPhase sdk g) s =
     [SetValidKeysetPrepareTransactionRequest placeholderContracts keyset
        (address (deployer g)) (parentChainPublicClient g)]"
  by (simp add: keysetPhase_run events_call)

text \<open>
  Claim C4 (what the code does). A run of \<open>main\<close> in which the keyset request throws is
  the same run, result and trace, as one in which it succeeds: the \<open>catch\<close> block of
  lines 133 to 135 is empty and prints nothing.
\<close>

theorem keyset_failure_is_silent:
  "main (sdk\<lparr>setValidKeysetPrepareTransactionRequest := \<lambda>cc k a c. Inl e\<rparr>) env g s =
   main (sdk\<lparr>setValidKeysetPrepareTransactionRequest := \<lambda>cc k a c. Inr t\<rparr>) env g s"
  by (simp add: main_def keysetPhase_run chainParameters_def deploymentPhase_def deployment_def)

subsection \<open>The guards on the required variables\<close>

text \<open>
  Claim C5. If \<open>DEPLOYER_PRIVATE_KEY\<close> or \<open>CUSTOM_FEE_TOKEN_ADDRESS\<close> is undefined, the
  script throws the error of line 24 or of line 28 and the state is the initial one: the
  trace has no new event, so no client was constructed and no import was called.
\<close>

theorem missing_required_variable_stops_startup:
  "env ''DEPLOYER_PRIVATE_KEY'' = None \<or> env ''CUSTOM_FEE_TOKEN_ADDRESS'' = None \<Longrightarrow>
   program sdk env s =
     (Inl (newError (if env ''DEPLOYER_PRIVATE_KEY'' = None then missingDeployerKey
                     else missingFeeToken)), s)"
  by (auto simp: program_def startup_def bnd_def throw_def)

theorem missing_required_variable_stops_startup_witness:
  "onlyDeployerKey ''CUSTOM_FEE_TOKEN_ADDRESS'' = None \<and>
   program mockSdk onlyDeployerKey initial = (Inl (newError missingFeeToken), initial)"
proof -
  have d: "onlyDeployerKey ''DEPLOYER_PRIVATE_KEY'' = Some ''0xd''"
    and c: "onlyDeployerKey ''CUSTOM_FEE_TOKEN_ADDRESS'' = None"
    by (simp_all add: onlyDeployerKey_def)
  from c have "onlyDeployerKey ''DEPLOYER_PRIVATE_KEY'' = None \<or>
      onlyDeployerKey ''CUSTOM_FEE_TOKEN_ADDRESS'' = None" ..
  from missing_required_variable_stops_startup [OF this, of mockSdk initial] d c
  show ?thesis by simp
qed

subsection \<open>withFallbackPrivateKey\<close>




subsection \<open>The endpoint and its warning\<close>

lemma startup_completes_defined:
  "startup sdk env s = (Inr g, s') \<Longrightarrow>
   env ''DEPLOYER_PRIVATE_KEY'' \<noteq> None \<and> env ''CUSTOM_FEE_TOKEN_ADDRESS'' \<noteq> None"
  by (auto simp: startup_def throw_def split: if_splits)

text \<open>
  Claim C7. On every start-up that completes: if \<open>PARENT_CHAIN_RPC\<close> is undefined or
  the empty string, the warning of line 33 is printed and the public client and the wallet
  client both resolve to the fallback endpoint; if it is set to a non-empty URL, no
  warning is printed and both clients resolve to that URL. In both cases the two clients
  are on \<open>arbitrumSepolia\<close> with the same transport \<open>http(PARENT_CHAIN_RPC)\<close>.
  A start-up that does not complete has stopped at a guard of lines 23 to 29 or at a key.
\<close>

theorem rpc_warning_and_shared_transport:
  assumes "startup sdk env s = (Inr g, s')"
  shows "(env ''PARENT_CHAIN_RPC'' = None \<or> env ''PARENT_CHAIN_RPC'' = Some [] \<longrightarrow>
            ConsoleWarn rpcWarning \<in> set (events (startup sdk env) s) \<and>
            endpoint fallback (transport (parentChainPublicClient g)) = fallback \<and>
            endpoint fallback (transport (walletClient g)) = fallback) \<and>
         (\<forall>url. env ''PARENT_CHAIN_RPC'' = Some url \<and> url \<noteq> [] \<longrightarrow>
            (\<forall>w. ConsoleWarn w \<notin> set (events (startup sdk env) s)) \<and>
            endpoint fallback (transport (parentChainPublicClient g)) = url \<and>
            endpoint fallback (transport (walletClient g)) = url) \<and>
         parentChainPublicClient g =
           \<lparr>chain' = arbitrumSepolia, transport = http (env ''PARENT_CHAIN_RPC'')\<rparr> \<and>
         walletClient g =
           \<lparr>chain' = arbitrumSepolia, transport = http (env ''PARENT_CHAIN_RPC''),
            account = deployer g\<rparr>"
proof -
  from startup_completes_defined [OF assms]
  have d: "env ''DEPLOYER_PRIVATE_KEY'' \<noteq> None" and f: "env ''CUSTOM_FEE_TOKEN_ADDRESS'' \<noteq> None"
    by simp_all
  from returnsD [OF returns_startup assms]
  have pc: "parentChainPublicClient g =
      \<lparr>chain' = arbitrumSepolia, transport = http (env ''PARENT_CHAIN_RPC'')\<rparr>"
    and wc: "walletClient g =
      \<lparr>chain' = arbitrumSepolia, transport = http (env ''PARENT_CHAIN_RPC''),
       account = deployer g\<rparr>"
    by simp_all
  have missing: "ConsoleWarn rpcWarning \<in> set (events (startup sdk env) s) \<and>
      endpoint fallback (transport (parentChainPublicClient g)) = fallback \<and>
      endpoint fallback (transport (walletClient g)) = fallback"
    if m: "env ''PARENT_CHAIN_RPC'' = None \<or> env ''PARENT_CHAIN_RPC'' = Some []"
  proof -
    from m have "endpoint fallback (http (env ''PARENT_CHAIN_RPC'')) = fallback"
      by (auto simp: endpoint_def)
    with startup_warning [OF d f m] pc wc show ?thesis by simp
  qed
  have given: "(\<forall>w. ConsoleWarn w \<notin> set (events (startup sdk env) s)) \<and>
      endpoint fallback (transport (parentChainPublicClient g)) = url \<and>
      endpoint fallback (transport (walletClient g)) = url"
    if u: "env ''PARENT_CHAIN_RPC'' = Some url \<and> url \<noteq> []" for url
  proof -
    have "ConsoleWarn w \<notin> set (events (startup sdk env) s)" for w
    proof
      assume "ConsoleWarn w \<in> set (events (startup sdk env) s)"
      from emits_set [OF emits_startup this] u show False
        by (simp add: startupEvent_def)
    qed
    moreover from u have "endpoint fallback (http (env ''PARENT_CHAIN_RPC'')) = url"
      by (simp add: endpoint_def)
    ultimately show ?thesis using pc wc by simp
  qed
  from missing given pc wc show ?thesis by blast
qed

text \<open>
  Without the variable: the warning, and both clients on the fallback endpoint. With it:
  no warning, and both clients on the given URL.
\<close>

theorem rpc_warning_and_shared_transport_witness:
  "ConsoleWarn rpcWarning \<in> set (events (startup mockSdk mockEnv) initial) \<and>
   endpoint ''https://default.example'' (transport (parentChainPublicClient mockGlobals)) =
     ''https://default.example'' \<and>
   endpoint ''https://default.example'' (transport (walletClient mockGlobals)) =
     ''https://default.example'' \<and>
   fst (startup mockSdk withRpc initial) = Inr rpcGlobals \<and>
   ConsoleWarn rpcWarning \<notin> set (events (startup mockSdk withRpc) initial) \<and>
   endpoint ''https://default.example'' (transport (parentChainPublicClient rpcGlobals)) =
     ''https://rpc.example'' \<and>
   endpoint ''https://default.example'' (transport (walletClient rpcGlobals)) =
     ''https://rpc.example''"
proof -
  have r: "mockEnv ''PARENT_CHAIN_RPC'' = None"
    by (simp add: mockEnv_def)
  have r': "withRpc ''PARENT_CHAIN_RPC'' = Some ''https://rpc.example''"
    by (simp add: withRpc_def)
  have st: "startup mockSdk mockEnv initial = (Inr mockGlobals, snd (startup mockSdk mockEnv initial))"
    using mock_startup_result by (simp add: prod_eq_iff)
  have res: "fst (startup mockSdk withRpc initial) = Inr rpcGlobals"
    by (simp add: run_defs mock_defs withRpc_def rpcGlobals_def)
  then have st': "startup mockSdk withRpc initial = (Inr rpcGlobals, snd (startup mockSdk withRpc initial))"
    by (simp add: prod_eq_iff)
  from rpc_warning_and_shared_transport [OF st, of "''https://default.example''"] r
  have a: "ConsoleWarn rpcWarning \<in> set (events (startup mockSdk mockEnv) initial) \<and>
      endpoint ''https://default.example'' (transport (parentChainPublicClient mockGlobals)) =
        ''https://default.example'' \<and>
      endpoint ''https://default.example'' (transport (walletClient mockGlobals)) =
        ''https://default.example''"
    by blast
  from rpc_warning_and_shared_transport [OF st', of "''https://default.example''"] r'
  have b: "ConsoleWarn rpcWarning \<notin> set (events (startup mockSdk withRpc) initial) \<and>
      endpoint ''https://default.example'' (transport (parentChainPublicClient rpcGlobals)) =
        ''https://rpc.example'' \<and>
      endpoint ''https://default.example'' (transport (walletClient rpcGlobals)) =
        ''https://rpc.example''"
    by auto
  from a res b show ?thesis by blast
qed

subsection \<open>The successful deployment\<close>

text \<open>
  Claim C8. When the request construction, the submission, the confirmation wait and the
  receipt parsing all succeed, \<open>main\<close> performs them in this order, prints the rollup
  address and the inbox address of the contracts that \<open>getCoreContracts\<close> returned, and
  only then calls the keyset request.
\<close>

theorem successful_deployment_order:
  assumes "chainParameters sdk env g s = (Inr (cfg, tok), s1)"
    and "createRollupPrepareTransactionRequest sdk
           \<lparr>config = cfg, batchPosters = [batchPoster g], validators = [validator g], nativeToken = tok\<rparr>
           (address (deployer g)) (parentChainPublicClient g) = Inr txRequest"
    and "sendTransaction sdk (walletClient g) txRequest = Inr txHash"
    and "waitForTransactionReceipt sdk (parentChainPublicClient g) txHash = Inr receipt"
    and "createRollupPrepareTransactionReceipt sdk receipt = Inr txReceipt"
    and "getCoreContracts sdk txReceipt = Inr coreContracts"
  shows "main sdk env g s =
     (Inr (), s1\<lparr>trace := trace s1 @
        [CreateRollupPrepareTransactionRequest
           \<lparr>config = cfg, batchPosters = [batchPoster g], validators = [validator g], nativeToken = tok\<rparr>
           (address (deployer g)) (parentChainPublicClient g),
         ConsoleLog [Str ''Transaction request prepared successfully''],
         ConsoleLog [Str ''Parent Chain ID:'', Num (chainId txRequest)],
         ConsoleLog [Str ''Creating rollup...''],
         SendTransaction (walletClient g) txRequest,
         ConsoleLog [Str ''Transaction sent. Waiting for confirmation...''],
         WaitForTransactionReceipt (parentChainPublicClient g) txHash,
         ConsoleLog [Str (''Transaction confirmed: '' @ transactionHash receipt)],
         CreateRollupPrepareTransactionReceipt receipt,
         GetCoreContracts txReceipt,
         ConsoleLog [Str ''Core contracts:'', Obj coreContracts],
         ConsoleLog [Str (''Rollup address: '' @ rollup coreContracts)],
         ConsoleLog [Str (''Inbox address: '' @ inbox coreContracts)],
         SetValidKeysetPrepareTransactionRequest placeholderContracts keyset
           (address (deployer g)) (parentChainPublicClient g)]\<rparr>)"
proof -
  have d: "deployment sdk g cfg tok s1 =
     (Inr (), s1\<lparr>trace := trace s1 @
        [CreateRollupPrepareTransactionRequest
           \<lparr>config = cfg, batchPosters = [batchPoster g], validators = [validator g], nativeToken = tok\<rparr>
           (address (deployer g)) (parentChainPublicClient g),
         ConsoleLog [Str ''Transaction request prepared successfully''],
         ConsoleLog [Str ''Parent Chain ID:'', Num (chainId txRequest)],
         ConsoleLog [Str ''Creating rollup...''],
         SendTransaction (walletClient g) txRequest,
         ConsoleLog [Str ''Transaction sent. Waiting for confirmation...''],
         WaitForTransactionReceipt (parentChainPublicClient g) txHash,
         ConsoleLog [Str (''Transaction confirmed: '' @ transactionHash receipt)],
         CreateRollupPrepareTransactionReceipt receipt,
         GetCoreContracts txReceipt,
         ConsoleLog [Str ''Core contracts:'', Obj coreContracts],
         ConsoleLog [Str (''Rollup address: '' @ rollup coreContracts)],
         ConsoleLog [Str (''Inbox address: '' @ inbox coreContracts)]]\<rparr>)"
    using assms(2-) by (simp add: deployment_def Let_def bnd_def call_def)
  have "deploymentPhase sdk g cfg tok s1 = (Inr (), snd (deployment sdk g cfg tok s1))"
    using d by (simp add: deploymentPhase_def tryCatch_def)
  with assms(1) d show ?thesis
    by (simp add: main_def bnd_def keysetPhase_run call_def)
qed

text \<open>The run on the stub SDK, which prints \<open>0xAAA\<close> and \<open>0xBBB\<close>.\<close>

theorem successful_deployment_order_witness:
  "main mockSdk mockEnv mockGlobals initial =
     (Inr (),
      \<lparr>trace =
         [GenerateChainId,
          PrepareChainConfig 1000 ''addr-0xd'' True,
          CreateRollupPrepareDeploymentParamsConfig mockClient 1000 ''addr-0xd'' ''chainConfig'',
          CreateRollupPrepareTransactionRequest
            \<lparr>config = ''config'', batchPosters = [''addr-0xk''], validators = [''addr-0xk1''],
             nativeToken = Some ''0xFEE001''\<rparr> ''addr-0xd'' mockClient,
          ConsoleLog [Str ''Transaction request prepared successfully''],
          ConsoleLog [Str ''Parent Chain ID:'', Num 421614],
          ConsoleLog [Str ''Creating rollup...''],
          SendTransaction mockWallet \<lparr>chainId = 421614, calldata = ''createRollup''\<rparr>,
          ConsoleLog [Str ''Transaction sent. Waiting for confirmation...''],
          WaitForTransactionReceipt mockClient ''0xhash'',
          ConsoleLog [Str ''Transaction confirmed: 0xhash''],
          CreateRollupPrepareTransactionReceipt \<lparr>transactionHash = ''0xhash'', logs = ''logs''\<rparr>,
          GetCoreContracts \<lparr>transactionHash = ''0xhash'', logs = ''logs''\<rparr>,
          ConsoleLog [Str ''Core contracts:'',
            Obj \<lparr>upgradeExecutor = ''0xCCC'', sequencerInbox = ''0xDDD'',
                 rollup = ''0xAAA'', inbox = ''0xBBB''\<rparr>],
          ConsoleLog [Str ''Rollup address: 0xAAA''],
          ConsoleLog [Str ''Inbox address: 0xBBB''],
          SetValidKeysetPrepareTransactionRequest placeholderContracts keyset ''addr-0xd'' mockClient],
       rng = 1\<rparr>)"
proof -
  have h1: "chainParameters mockSdk mockEnv mockGlobals initial =
      (Inr (''config'', Some ''0xFEE001''), snd (chainParameters mockSdk mockEnv mockGlobals initial))"
    by (simp add: chainParameters_def mock_defs prog_defs)
  have h2: "createRollupPrepareTransactionRequest mockSdk
           \<lparr>config = ''config'', batchPosters = [batchPoster mockGlobals],
            validators = [validator mockGlobals], nativeToken = Some ''0xFEE001''\<rparr>
           (address (deployer mockGlobals)) (parentChainPublicClient mockGlobals) =
         Inr \<lparr>chainId = 421614, calldata = ''createRollup''\<rparr>"
    by (simp add: mockSdk_def)
  have h3: "sendTransaction mockSdk (walletClient mockGlobals)
      \<lparr>chainId = 421614, calldata = ''createRollup''\<rparr> = Inr ''0xhash''"
    by (simp add: mockSdk_def)
  have h4: "waitForTransactionReceipt mockSdk (parentChainPublicClient mockGlobals) ''0xhash'' =
      Inr \<lparr>transactionHash = ''0xhash'', logs = ''logs''\<rparr>"
    by (simp add: mockSdk_def)
  have h5: "createRollupPrepareTransactionReceipt mockSdk \<lparr>transactionHash = ''0xhash'', logs = ''logs''\<rparr> =
      Inr \<lparr>transactionHash = ''0xhash'', logs = ''logs''\<rparr>"
    by (simp add: mockSdk_def)
  have h6: "getCoreContracts mockSdk \<lparr>transactionHash = ''0xhash'', logs = ''logs''\<rparr> =
      Inr \<lparr>upgradeExecutor = ''0xCCC'', sequencerInbox = ''0xDDD'', rollup = ''0xAAA'', inbox = ''0xBBB''\<rparr>"
    by (simp add: mockSdk_def)
  show ?thesis
    using successful_deployment_order [OF h1 h2 h3 h4 h5 h6]
    by (simp add: chainParameters_def mock_defs prog_defs)
qed

subsection \<open>Empty required variables\<close>

text \<open>
  Claim C9. The guards of lines 23 to 29 test for \<open>undefined\<close> only. With
  \<open>DEPLOYER_PRIVATE_KEY\<close> set to the empty string the script does not stop at its guard:
  if the other variable is undefined it is that variable's guard that throws, and
  otherwise the run goes on (it emits events), and once the public client is constructed
  the empty string is passed to \<open>sanitizePrivateKey\<close>. With \<open>CUSTOM_FEE_TOKEN_ADDRESS\<close>
  set to the empty string the run goes on, and every deployment request it builds has the
  empty string as \<open>nativeToken\<close>. For the optional keys the empty string draws a
  generated key instead.
\<close>

theorem empty_required_variables_pass_guards:
  "(env ''DEPLOYER_PRIVATE_KEY'' = Some [] \<and> env ''CUSTOM_FEE_TOKEN_ADDRESS'' = None \<longrightarrow>
      program sdk env s = (Inl (newError missingFeeToken), s)) \<and>
   (env ''DEPLOYER_PRIVATE_KEY'' = Some [] \<and> env ''CUSTOM_FEE_TOKEN_ADDRESS'' \<noteq> None \<longrightarrow>
      events (program sdk env) s \<noteq> [] \<and>
      (\<forall>c. CreatePublicClient c \<in> set (events (program sdk env) s) \<longrightarrow>
           SanitizePrivateKey [] \<in> set (events (program sdk env) s))) \<and>
   (env ''CUSTOM_FEE_TOKEN_ADDRESS'' = Some [] \<and> env ''DEPLOYER_PRIVATE_KEY'' \<noteq> None \<longrightarrow>
      events (program sdk env) s \<noteq> [] \<and>
      (\<forall>p a c. CreateRollupPrepareTransactionRequest p a c \<in> set (events (program sdk env) s) \<longrightarrow>
           nativeToken p = Some [])) \<and>
   withFallbackPrivateKey sdk (Some []) = draw GeneratePrivateKey (generatePrivateKey sdk)"
proof (intro conjI impI allI)
  assume "env ''DEPLOYER_PRIVATE_KEY'' = Some [] \<and> env ''CUSTOM_FEE_TOKEN_ADDRESS'' = None"
  then show "program sdk env s = (Inl (newError missingFeeToken), s)"
    by (simp add: program_def startup_def bnd_def throw_def)
next
  assume h: "env ''DEPLOYER_PRIVATE_KEY'' = Some [] \<and> env ''CUSTOM_FEE_TOKEN_ADDRESS'' \<noteq> None"
  then have "events (startup sdk env) s \<noteq> []" by (intro startup_events_nonempty) simp_all
  then show "events (program sdk env) s \<noteq> []" by (simp add: program_events)
next
  fix c
  assume h: "env ''DEPLOYER_PRIVATE_KEY'' = Some [] \<and> env ''CUSTOM_FEE_TOKEN_ADDRESS'' \<noteq> None"
    and c: "CreatePublicClient c \<in> set (events (program sdk env) s)"
  have "CreatePublicClient c \<in> set (events (startup sdk env) s)"
  proof (rule ccontr)
    assume n: "CreatePublicClient c \<notin> set (events (startup sdk env) s)"
    with c obtain g where
      "CreatePublicClient c \<in> set (events (main sdk env g) (snd (startup sdk env s)))"
      unfolding program_events by (auto split: sum.splits)
    from main_event_cases [OF this] show False by (simp add: bodyEvent_def)
  qed
  with h have "SanitizePrivateKey (the (env ''DEPLOYER_PRIVATE_KEY'')) \<in> set (events (startup sdk env) s)"
    by (intro startup_client_then_sanitize) simp_all
  with h program_events_startup show "SanitizePrivateKey [] \<in> set (events (program sdk env) s)"
    by auto
next
  assume h: "env ''CUSTOM_FEE_TOKEN_ADDRESS'' = Some [] \<and> env ''DEPLOYER_PRIVATE_KEY'' \<noteq> None"
  then have "events (startup sdk env) s \<noteq> []" by (intro startup_events_nonempty) simp_all
  then show "events (program sdk env) s \<noteq> []" by (simp add: program_events)
next
  fix p a c
  assume h: "env ''CUSTOM_FEE_TOKEN_ADDRESS'' = Some [] \<and> env ''DEPLOYER_PRIVATE_KEY'' \<noteq> None"
    and c: "CreateRollupPrepareTransactionRequest p a c \<in> set (events (program sdk env) s)"
  from program_event_cases [OF c] h show "nativeToken p = Some []"
    by (auto simp: startupEvent_def bodyEvent_def)
next
  show "withFallbackPrivateKey sdk (Some []) = draw GeneratePrivateKey (generatePrivateKey sdk)"
    by (simp add: withFallbackPrivateKey_def)
qed

text \<open>
  On the stub SDK: the empty deployer key reaches \<open>sanitizePrivateKey\<close> (which rejects
  it), and the empty fee token address reaches the deployment request.
\<close>

theorem empty_required_variables_pass_guards_witness:
  "events (program mockSdk emptyDeployerKey) initial =
     [ConsoleWarn rpcWarning, GeneratePrivateKey, PrivateKeyToAccount ''0xk'',
      GeneratePrivateKey, PrivateKeyToAccount ''0xk1'', CreatePublicClient mockClient,
      SanitizePrivateKey []] \<and>
   SanitizePrivateKey [] \<in> set (events (program mockSdk emptyDeployerKey) initial) \<and>
   CreateRollupPrepareTransactionRequest
     \<lparr>config = ''config'', batchPosters = [''addr-0xk''], validators = [''addr-0xk1''],
      nativeToken = Some []\<rparr> ''addr-0xd'' mockClient
     \<in> set (events (program mockSdk emptyFeeToken) initial) \<and>
   events (program mockSdk emptyFeeToken) initial \<noteq> []"
proof -
  have e: "events (program mockSdk emptyDeployerKey) initial =
     [ConsoleWarn rpcWarning, GeneratePrivateKey, PrivateKeyToAccount ''0xk'',
      GeneratePrivateKey, PrivateKeyToAccount ''0xk1'', CreatePublicClient mockClient,
      SanitizePrivateKey []]"
    by (simp add: events_def run_defs mock_defs emptyDeployerKey_def)
  then have c: "CreatePublicClient mockClient \<in> set (events (program mockSdk emptyDeployerKey) initial)"
    by simp
  have h: "emptyDeployerKey ''DEPLOYER_PRIVATE_KEY'' = Some [] \<and>
      emptyDeployerKey ''CUSTOM_FEE_TOKEN_ADDRESS'' \<noteq> None"
    by (simp add: emptyDeployerKey_def)
  have h': "emptyFeeToken ''CUSTOM_FEE_TOKEN_ADDRESS'' = Some [] \<and>
      emptyFeeToken ''DEPLOYER_PRIVATE_KEY'' \<noteq> None"
    by (simp add: emptyFeeToken_def)
  have r: "CreateRollupPrepareTransactionRequest
     \<lparr>config = ''config'', batchPosters = [''addr-0xk''], validators = [''addr-0xk1''],
      nativeToken = Some []\<rparr> ''addr-0xd'' mockClient
     \<in> set (events (program mockSdk emptyFeeToken) initial)"
    by (simp add: events_def run_defs mock_defs emptyFeeToken_def)
  from empty_required_variables_pass_guards [of emptyDeployerKey mockSdk initial] h c
  have 1: "SanitizePrivateKey [] \<in> set (events (program mockSdk emptyDeployerKey) initial)"
    by blast
  from empty_required_variables_pass_guards [of emptyFeeToken mockSdk initial] h'
  have 2: "events (program mockSdk emptyFeeToken) initial \<noteq> []"
    by blast
  from e 1 r 2 show ?thesis by blast
qed

subsection \<open>Who signs\<close>



end
